theory Spec2Isabelle
  imports Main "HOL-Library.Word"
begin

unbundle bit_operations_syntax

section \<open>Bytes and fixed-width little-endian reads\<close>

text \<open>
  The scanner of \<^verbatim>\<open>tools/re_scanner.py\<close> works on one immutable \<^verbatim>\<open>bytes\<close> object.
  A byte is an 8-bit word, the buffer a list of bytes, and Python's unbounded integers
  are \<open>nat\<close> where the source can only produce non-negative values (sizes, unsigned
  header fields, indices) and \<open>int\<close> where a signed displacement takes part.
\<close>

type_synonym byte = "8 word"

datatype error = ValueError | StructError | IndexError

text \<open>Python's slice \<^verbatim>\<open>d[a:b]\<close> for non-negative \<open>a\<close> and \<open>b\<close>: it never raises.\<close>

definition py_slice :: "'a list \<Rightarrow> nat \<Rightarrow> nat \<Rightarrow> 'a list" where
  "py_slice d a b = take (b - a) (drop a d)"

text \<open>The value of a little-endian byte string, least significant byte first.\<close>

fun le_nat :: "byte list \<Rightarrow> nat" where
  "le_nat [] = 0"
| "le_nat (b # bs) = unat b + 256 * le_nat bs"

text \<open>
  \<^verbatim>\<open>struct.unpack_from(fmt, buf, off)[0]\<close> for the unsigned formats \<^verbatim>\<open><H\<close>, \<^verbatim>\<open><I\<close>,
  \<^verbatim>\<open><Q\<close> (\<open>n\<close> is 2, 4 or 8 bytes): it raises \<^verbatim>\<open>struct.error\<close> when fewer than
  \<open>n\<close> bytes are left at \<open>off\<close>.
\<close>

definition unpack_from :: "nat \<Rightarrow> byte list \<Rightarrow> nat \<Rightarrow> error + nat" where
  "unpack_from n d off =
     (if off + n \<le> length d then Inr (le_nat (py_slice d off (off + n))) else Inl StructError)"


text \<open>\<^verbatim>\<open>struct.unpack_from('<i', buf, off)[0]\<close>: four bytes read as two's complement.\<close>

definition i32_at :: "byte list \<Rightarrow> nat \<Rightarrow> int" where
  "i32_at d off =
     (let u = le_nat (py_slice d off (off + 4))
      in if u < 2 ^ 31 then int u else int u - 2 ^ 32)"

text \<open>The fields of a ModRM byte, as the source extracts them with shifts and masks.\<close>

definition modrm_mod :: "byte \<Rightarrow> byte" where
  "modrm_mod m = (drop_bit 6 m) AND 3"

definition modrm_rm :: "byte \<Rightarrow> byte" where
  "modrm_rm m = m AND 7"


section \<open>The parsed image\<close>

text \<open>
  One entry of \<^verbatim>\<open>self.sections\<close>. The name is kept as the ASCII code units that
  \<^verbatim>\<open>decode('ascii', errors='ignore')\<close> leaves; the four numbers are unsigned 32-bit
  header fields.
\<close>

record pe_section =
  name :: "byte list"
  vsize :: nat
  rva :: nat
  raw_size :: nat
  raw_offset :: nat

text \<open>The attributes of a \<^verbatim>\<open>PEParser\<close> object after \<^verbatim>\<open>__init__\<close>.\<close>

record image =
  data :: "byte list"
  base :: nat
  sections :: "pe_section list"
  text_start :: nat
  text_size :: nat
  text_rva :: nat
  rdata_start :: nat
  rdata_size :: nat
  rdata_rva :: nat
  data_start :: nat
  data_size :: nat
  data_rva :: nat

subsection \<open>Container parsing\<close>

text \<open>
  The section name: \<^verbatim>\<open>data[off:off+8].rstrip(b'\\x00').decode('ascii', errors='ignore')\<close>
  drops the trailing NUL bytes and then every byte that is not ASCII.
\<close>

definition rstrip_nul :: "byte list \<Rightarrow> byte list" where
  "rstrip_nul bs = rev (dropWhile (\<lambda>b. b = 0) (rev bs))"

definition decode_ascii_ignore :: "byte list \<Rightarrow> byte list" where
  "decode_ascii_ignore bs = filter (\<lambda>b. b < 0x80) bs"

definition dot_text :: "byte list" where
  "dot_text = [0x2E, 0x74, 0x65, 0x78, 0x74]"

definition dot_rdata :: "byte list" where
  "dot_rdata = [0x2E, 0x72, 0x64, 0x61, 0x74, 0x61]"

definition dot_data :: "byte list" where
  "dot_data = [0x2E, 0x64, 0x61, 0x74, 0x61]"

text \<open>The state \<^verbatim>\<open>__init__\<close> sets up before it calls \<^verbatim>\<open>_parse_pe\<close>.\<close>

definition init_image :: "byte list \<Rightarrow> image" where
  "init_image d = \<lparr>data = d, base = 0x140000000, sections = [],
     text_start = 0, text_size = 0, text_rva = 0,
     rdata_start = 0, rdata_size = 0, rdata_rva = 0,
     data_start = 0, data_size = 0, data_rva = 0\<rparr>"

text \<open>
  The body of the section loop for the 40-byte record at \<open>off\<close>: four unsigned reads
  (each may raise \<^verbatim>\<open>struct.error\<close>), the append, and the three name tests.
\<close>

definition parse_section :: "byte list \<Rightarrow> nat \<Rightarrow> image \<Rightarrow> error + image" where
  "parse_section d off pe =
     (let nm = decode_ascii_ignore (rstrip_nul (py_slice d off (off + 8)))
      in case unpack_from 4 d (off + 8) of Inl e \<Rightarrow> Inl e | Inr vs \<Rightarrow>
         (case unpack_from 4 d (off + 12) of Inl e \<Rightarrow> Inl e | Inr rv \<Rightarrow>
         (case unpack_from 4 d (off + 16) of Inl e \<Rightarrow> Inl e | Inr rs \<Rightarrow>
         (case unpack_from 4 d (off + 20) of Inl e \<Rightarrow> Inl e | Inr ro \<Rightarrow>
            (let pe1 = pe\<lparr>sections := sections pe @
                         [\<lparr>name = nm, vsize = vs, rva = rv, raw_size = rs, raw_offset = ro\<rparr>]\<rparr>
             in Inr (if nm = dot_text
                     then pe1\<lparr>text_start := ro, text_size := rs, text_rva := rv\<rparr>
                     else if nm = dot_rdata
                     then pe1\<lparr>rdata_start := ro, rdata_size := rs, rdata_rva := rv\<rparr>
                     else if nm = dot_data
                     then pe1\<lparr>data_start := ro, data_size := rs, data_rva := rv\<rparr>
                     else pe1))))))"

text \<open>\<^verbatim>\<open>for i in range(num_sections)\<close>, over the list of the indices still to do.\<close>

fun parse_sections :: "byte list \<Rightarrow> nat \<Rightarrow> nat list \<Rightarrow> image \<Rightarrow> error + image" where
  "parse_sections d section_offset [] pe = Inr pe"
| "parse_sections d section_offset (i # is) pe =
     (case parse_section d (section_offset + i * 40) pe of
        Inl e \<Rightarrow> Inl e
      | Inr pe' \<Rightarrow> parse_sections d section_offset is pe')"

definition mz_signature :: "byte list" where
  "mz_signature = [0x4D, 0x5A]"

definition pe_signature :: "byte list" where
  "pe_signature = [0x50, 0x45, 0x00, 0x00]"

text \<open>
  \<^verbatim>\<open>_parse_pe\<close>, run on the initial state of a buffer \<open>d\<close>. The two signature tests raise
  \<^verbatim>\<open>ValueError\<close>; every fixed-width read raises \<^verbatim>\<open>struct.error\<close> on a truncated
  buffer; the magic test has no \<^verbatim>\<open>else\<close> branch, so any other magic keeps the default
  base.
\<close>

definition parse_pe :: "byte list \<Rightarrow> error + image" where
  "parse_pe d =
     (if py_slice d 0 2 \<noteq> mz_signature then Inl ValueError
      else case unpack_from 4 d 0x3C of Inl e \<Rightarrow> Inl e | Inr e_lfanew \<Rightarrow>
        (if py_slice d e_lfanew (e_lfanew + 4) \<noteq> pe_signature then Inl ValueError
         else let coff_offset = e_lfanew + 4
         in case unpack_from 2 d (coff_offset + 2) of Inl e \<Rightarrow> Inl e | Inr num_sections \<Rightarrow>
           (case unpack_from 2 d (coff_offset + 16) of Inl e \<Rightarrow> Inl e | Inr optional_header_size \<Rightarrow>
           (let opt_offset = coff_offset + 20
            in case unpack_from 2 d opt_offset of Inl e \<Rightarrow> Inl e | Inr magic \<Rightarrow>
              (case (if magic = 0x20b
                     then (case unpack_from 8 d (opt_offset + 24) of
                             Inl e \<Rightarrow> Inl e
                           | Inr b \<Rightarrow> Inr ((init_image d)\<lparr>base := b\<rparr>))
                     else Inr (init_image d)) of
                 Inl e \<Rightarrow> Inl e
               | Inr pe \<Rightarrow>
                   parse_sections d (opt_offset + optional_header_size) [0 ..< num_sections] pe)))))"

text \<open>The optional-header magic of a buffer whose header reads succeed.\<close>

definition header_magic :: "byte list \<Rightarrow> nat" where
  "header_magic d = le_nat (py_slice d (le_nat (py_slice d 0x3C 0x40) + 24) (le_nat (py_slice d 0x3C 0x40) + 26))"

subsection \<open>Address translation\<close>

text \<open>
  \<^verbatim>\<open>rva_to_offset\<close> and \<^verbatim>\<open>offset_to_rva\<close> walk the section list in order and
  answer from the first section whose range holds the argument; \<^verbatim>\<open>None\<close> when no
  section does. The argument is any Python integer.
\<close>

fun rva_to_offset_in :: "pe_section list \<Rightarrow> int \<Rightarrow> int option" where
  "rva_to_offset_in [] r = None"
| "rva_to_offset_in (s # ss) r =
     (if int (rva s) \<le> r \<and> r < int (rva s) + int (raw_size s)
      then Some (r - int (rva s) + int (raw_offset s))
      else rva_to_offset_in ss r)"

definition rva_to_offset :: "image \<Rightarrow> int \<Rightarrow> int option" where
  "rva_to_offset pe r = rva_to_offset_in (sections pe) r"

fun offset_to_rva_in :: "pe_section list \<Rightarrow> int \<Rightarrow> int option" where
  "offset_to_rva_in [] off = None"
| "offset_to_rva_in (s # ss) off =
     (if int (raw_offset s) \<le> off \<and> off < int (raw_offset s) + int (raw_size s)
      then Some (off - int (raw_offset s) + int (rva s))
      else offset_to_rva_in ss off)"

definition offset_to_rva :: "image \<Rightarrow> int \<Rightarrow> int option" where
  "offset_to_rva pe off = offset_to_rva_in (sections pe) off"

text \<open>The half-open ranges a section covers in the file and in RVA space.\<close>

definition in_file_range :: "pe_section \<Rightarrow> int \<Rightarrow> bool" where
  "in_file_range s off \<longleftrightarrow> int (raw_offset s) \<le> off \<and> off < int (raw_offset s) + int (raw_size s)"

definition in_rva_range :: "pe_section \<Rightarrow> int \<Rightarrow> bool" where
  "in_rva_range s r \<longleftrightarrow> int (rva s) \<le> r \<and> r < int (rva s) + int (raw_size s)"

text \<open>
  Two sections are apart in the file (in RVA space) when their half-open ranges share no
  point; a list is disjoint when any two of its entries are apart.
\<close>

definition file_apart :: "pe_section \<Rightarrow> pe_section \<Rightarrow> bool" where
  "file_apart s t \<longleftrightarrow>
     raw_size s = 0 \<or> raw_size t = 0 \<or>
     raw_offset s + raw_size s \<le> raw_offset t \<or> raw_offset t + raw_size t \<le> raw_offset s"

definition rva_apart :: "pe_section \<Rightarrow> pe_section \<Rightarrow> bool" where
  "rva_apart s t \<longleftrightarrow>
     raw_size s = 0 \<or> raw_size t = 0 \<or>
     rva s + raw_size s \<le> rva t \<or> rva t + raw_size t \<le> rva s"

fun file_ranges_disjoint :: "pe_section list \<Rightarrow> bool" where
  "file_ranges_disjoint [] = True"
| "file_ranges_disjoint (s # ss) = (list_all (file_apart s) ss \<and> file_ranges_disjoint ss)"

fun rva_ranges_disjoint :: "pe_section list \<Rightarrow> bool" where
  "rva_ranges_disjoint [] = True"
| "rva_ranges_disjoint (s # ss) = (list_all (rva_apart s) ss \<and> rva_ranges_disjoint ss)"

section \<open>Reference scanning\<close>

text \<open>
  The body shared by the five recognisers of \<^verbatim>\<open>find_string_xrefs\<close>: the ModRM byte
  selects \<open>mod = 0\<close>, \<open>rm = 5\<close>, and the address of the next instruction plus the signed
  displacement is the queried virtual address. \<open>ilen\<close> is the instruction length the
  recogniser adds (6 or 7) and \<open>disp_at\<close> where its displacement starts.
\<close>

definition rip_target :: "image \<Rightarrow> byte list \<Rightarrow> nat \<Rightarrow> nat \<Rightarrow> int \<Rightarrow> int" where
  "rip_target pe text_data i disp_at ilen =
     (int (base pe) + int (text_rva pe) + int i) + ilen + i32_at text_data disp_at"

definition rip_hit :: "image \<Rightarrow> byte list \<Rightarrow> nat \<Rightarrow> byte \<Rightarrow> nat \<Rightarrow> int \<Rightarrow> int \<Rightarrow> bool" where
  "rip_hit pe text_data i modrm disp_at ilen string_va \<longleftrightarrow>
     modrm_mod modrm = 0 \<and> modrm_rm modrm = 5 \<and>
     rip_target pe text_data i disp_at ilen = string_va"

text \<open>
  One iteration of the loop, at index \<open>i < text_end\<close>: the five \<^verbatim>\<open>if\<close> blocks in
  source order, each appending \<^verbatim>\<open>self.text_start + i\<close> or nothing.
\<close>

definition xrefs_at :: "image \<Rightarrow> byte list \<Rightarrow> int \<Rightarrow> int \<Rightarrow> nat \<Rightarrow> nat list" where
  "xrefs_at pe text_data text_end string_va i =
     (let b0 = text_data ! i;
          b1 = (if int i + 1 < text_end then text_data ! (i + 1) else 0)
      in (if (b0 = 0x48 \<or> b0 = 0x4C) \<and> b1 = 0x8D \<and> int i + 6 < text_end \<and>
             rip_hit pe text_data i (text_data ! (i + 2)) (i + 3) 7 string_va
          then [text_start pe + i] else []) @
         (if b0 = 0x8D \<and> int i + 5 < text_end \<and>
             rip_hit pe text_data i b1 (i + 2) 6 string_va
          then [text_start pe + i] else []) @
         (if (b0 = 0x48 \<or> b0 = 0x4C) \<and> b1 = 0x8B \<and> int i + 6 < text_end \<and>
             rip_hit pe text_data i (text_data ! (i + 2)) (i + 3) 7 string_va
          then [text_start pe + i] else []) @
         (if (b0 = 0x48 \<or> b0 = 0x4C) \<and> b1 = 0x89 \<and> int i + 6 < text_end \<and>
             rip_hit pe text_data i (text_data ! (i + 2)) (i + 3) 7 string_va
          then [text_start pe + i] else []) @
         (if b0 = 0x48 \<and> (b1 = 0x39 \<or> b1 = 0x3B) \<and> int i + 6 < text_end \<and>
             rip_hit pe text_data i (text_data ! (i + 2)) (i + 3) 7 string_va
          then [text_start pe + i] else []))"

text \<open>
  \<^verbatim>\<open>find_string_xrefs\<close>: an unmapped string offset gives the empty list; otherwise
  the loop runs over \<^verbatim>\<open>range(len(text_data) - 7)\<close>, which is empty when the bound is
  not positive.
\<close>

definition find_string_xrefs :: "image \<Rightarrow> int \<Rightarrow> nat list" where
  "find_string_xrefs pe string_offset =
     (case offset_to_rva pe string_offset of
        None \<Rightarrow> []
      | Some string_rva \<Rightarrow>
          (let string_va = int (base pe) + string_rva;
               text_data = py_slice (data pe) (text_start pe) (text_start pe + text_size pe);
               text_end = int (length text_data) - 7
           in concat (map (xrefs_at pe text_data text_end string_va) [0 ..< nat text_end])))"

section \<open>Concrete inputs\<close>

text \<open>
  A 90-byte buffer: the two signatures, a COFF header announcing no section and an empty
  optional header, and the 32-bit optional-header magic \<open>0x10B\<close>.
\<close>

definition header32 :: "byte list" where
  "header32 = [
      0x4D, 0x5A, 0x00, 0x00, 0x00, 0x00, 0x00, 0x00, 0x00, 0x00, 0x00, 0x00, 0x00, 0x00, 0x00, 0x00,
      0x00, 0x00, 0x00, 0x00, 0x00, 0x00, 0x00, 0x00, 0x00, 0x00, 0x00, 0x00, 0x00, 0x00, 0x00, 0x00,
      0x00, 0x00, 0x00, 0x00, 0x00, 0x00, 0x00, 0x00, 0x00, 0x00, 0x00, 0x00, 0x00, 0x00, 0x00, 0x00,
      0x00, 0x00, 0x00, 0x00, 0x00, 0x00, 0x00, 0x00, 0x00, 0x00, 0x00, 0x00, 0x40, 0x00, 0x00, 0x00,
      0x50, 0x45, 0x00, 0x00, 0x00, 0x00, 0x00, 0x00, 0x00, 0x00, 0x00, 0x00, 0x00, 0x00, 0x00, 0x00,
      0x00, 0x00, 0x00, 0x00, 0x00, 0x00, 0x00, 0x00, 0x0B, 0x01]"

text \<open>
  A 200-byte 64-bit header with two section records, \<^verbatim>\<open>.text\<close> and \<^verbatim>\<open>.data\<close>, whose raw
  data both start at file offset \<open>0x400\<close>.
\<close>

definition header64_overlap :: "byte list" where
  "header64_overlap = [
      0x4D, 0x5A, 0x00, 0x00, 0x00, 0x00, 0x00, 0x00, 0x00, 0x00, 0x00, 0x00, 0x00, 0x00, 0x00, 0x00,
      0x00, 0x00, 0x00, 0x00, 0x00, 0x00, 0x00, 0x00, 0x00, 0x00, 0x00, 0x00, 0x00, 0x00, 0x00, 0x00,
      0x00, 0x00, 0x00, 0x00, 0x00, 0x00, 0x00, 0x00, 0x00, 0x00, 0x00, 0x00, 0x00, 0x00, 0x00, 0x00,
      0x00, 0x00, 0x00, 0x00, 0x00, 0x00, 0x00, 0x00, 0x00, 0x00, 0x00, 0x00, 0x40, 0x00, 0x00, 0x00,
      0x50, 0x45, 0x00, 0x00, 0x00, 0x00, 0x02, 0x00, 0x00, 0x00, 0x00, 0x00, 0x00, 0x00, 0x00, 0x00,
      0x00, 0x00, 0x00, 0x00, 0x20, 0x00, 0x00, 0x00, 0x0B, 0x02, 0x00, 0x00, 0x00, 0x00, 0x00, 0x00,
      0x00, 0x00, 0x00, 0x00, 0x00, 0x00, 0x00, 0x00, 0x00, 0x00, 0x00, 0x00, 0x00, 0x00, 0x00, 0x00,
      0x00, 0x00, 0x00, 0x40, 0x01, 0x00, 0x00, 0x00, 0x2E, 0x74, 0x65, 0x78, 0x74, 0x00, 0x00, 0x00,
      0x00, 0x02, 0x00, 0x00, 0x00, 0x10, 0x00, 0x00, 0x00, 0x02, 0x00, 0x00, 0x00, 0x04, 0x00, 0x00,
      0x00, 0x00, 0x00, 0x00, 0x00, 0x00, 0x00, 0x00, 0x00, 0x00, 0x00, 0x00, 0x00, 0x00, 0x00, 0x00,
      0x2E, 0x64, 0x61, 0x74, 0x61, 0x00, 0x00, 0x00, 0x00, 0x02, 0x00, 0x00, 0x00, 0x20, 0x00, 0x00,
      0x00, 0x02, 0x00, 0x00, 0x00, 0x04, 0x00, 0x00, 0x00, 0x00, 0x00, 0x00, 0x00, 0x00, 0x00, 0x00,
      0x00, 0x00, 0x00, 0x00, 0x00, 0x00, 0x00, 0x00]"

definition overlap_image :: image where
  "overlap_image =
     \<lparr>data = header64_overlap, base = 0x140000000,
      sections = [\<lparr>name = dot_text, vsize = 0x200, rva = 0x1000, raw_size = 0x200, raw_offset = 0x400\<rparr>,
                  \<lparr>name = dot_data, vsize = 0x200, rva = 0x2000, raw_size = 0x200, raw_offset = 0x400\<rparr>],
      text_start = 0x400, text_size = 0x200, text_rva = 0x1000,
      rdata_start = 0, rdata_size = 0, rdata_rva = 0,
      data_start = 0x400, data_size = 0x200, data_rva = 0x2000\<rparr>"

text \<open>An image whose two sections are apart both in the file and in RVA space.\<close>

definition apart_image :: image where
  "apart_image =
     \<lparr>data = [], base = 0x140000000,
      sections = [\<lparr>name = dot_text, vsize = 0x200, rva = 0x1000, raw_size = 0x200, raw_offset = 0x400\<rparr>,
                  \<lparr>name = dot_data, vsize = 0x200, rva = 0x2000, raw_size = 0x200, raw_offset = 0x600\<rparr>],
      text_start = 0x400, text_size = 0x200, text_rva = 0x1000,
      rdata_start = 0, rdata_size = 0, rdata_rva = 0,
      data_start = 0x600, data_size = 0x200, data_rva = 0x2000\<rparr>"

text \<open>
  Following the claim's words rather than the loop: one of the recognised
  position-relative encodings lies wholly inside the region at index \<open>i\<close> (a 7-byte
  prefixed LEA, MOV load, MOV store or CMP, or the 6-byte LEA without prefix), with
  \<open>mod = 0\<close>, \<open>rm = 5\<close>, and its effective target is \<open>va\<close>.
\<close>

definition rip_encoding_at :: "image \<Rightarrow> byte list \<Rightarrow> int \<Rightarrow> nat \<Rightarrow> bool" where
  "rip_encoding_at pe td va i \<longleftrightarrow>
     (i + 7 \<le> length td \<and>
      (((td ! i = 0x48 \<or> td ! i = 0x4C) \<and>
        (td ! (i + 1) = 0x8D \<or> td ! (i + 1) = 0x8B \<or> td ! (i + 1) = 0x89)) \<or>
       (td ! i = 0x48 \<and> (td ! (i + 1) = 0x39 \<or> td ! (i + 1) = 0x3B))) \<and>
      rip_hit pe td i (td ! (i + 2)) (i + 3) 7 va) \<or>
     (i + 6 \<le> length td \<and> td ! i = 0x8D \<and> rip_hit pe td i (td ! (i + 1)) (i + 2) 6 va)"

text \<open>
  Two images with a 16-byte and a 23-byte code region at file offset 0, followed by the
  8-byte string \<^verbatim>\<open>marker\<close>. Both hold nine NOPs and then, at index 9, the instruction
  \<^verbatim>\<open>48 8D 05 F0 0F 00 00\<close> (LEA with a position-relative operand) whose target is the
  string; in the first the instruction ends the region, in the second seven more NOPs
  follow it.
\<close>

definition tail_lea_image :: image where
  "tail_lea_image =
     \<lparr>data = [0x90, 0x90, 0x90, 0x90, 0x90, 0x90, 0x90, 0x90, 0x90,
              0x48, 0x8D, 0x05, 0xF0, 0x0F, 0x00, 0x00,
              0x6D, 0x61, 0x72, 0x6B, 0x65, 0x72, 0x00, 0x00],
      base = 0x140000000,
      sections = [\<lparr>name = dot_text, vsize = 16, rva = 0x1000, raw_size = 16, raw_offset = 0\<rparr>,
                  \<lparr>name = dot_rdata, vsize = 8, rva = 0x2000, raw_size = 8, raw_offset = 16\<rparr>],
      text_start = 0, text_size = 16, text_rva = 0x1000,
      rdata_start = 16, rdata_size = 8, rdata_rva = 0x2000,
      data_start = 0, data_size = 0, data_rva = 0\<rparr>"

definition padded_lea_image :: image where
  "padded_lea_image =
     \<lparr>data = [0x90, 0x90, 0x90, 0x90, 0x90, 0x90, 0x90, 0x90, 0x90,
              0x48, 0x8D, 0x05, 0xF0, 0x0F, 0x00, 0x00,
              0x90, 0x90, 0x90, 0x90, 0x90, 0x90, 0x90,
              0x6D, 0x61, 0x72, 0x6B, 0x65, 0x72, 0x00, 0x00],
      base = 0x140000000,
      sections = [\<lparr>name = dot_text, vsize = 23, rva = 0x1000, raw_size = 23, raw_offset = 0\<rparr>,
                  \<lparr>name = dot_rdata, vsize = 8, rva = 0x2000, raw_size = 8, raw_offset = 23\<rparr>],
      text_start = 0, text_size = 23, text_rva = 0x1000,
      rdata_start = 23, rdata_size = 8, rdata_rva = 0x2000,
      data_start = 0, data_size = 0, data_rva = 0\<rparr>"

section \<open>Pointer search in the data section\<close>

text \<open>\<^verbatim>\<open>struct.pack('<Q', v)\<close> for \<open>0 \<le> v < 2^64\<close>: the eight bytes of \<open>v\<close>, lowest first.\<close>

definition pack_q :: "nat \<Rightarrow> byte list" where
  "pack_q v = [of_nat (v mod 256), of_nat (v div 256 mod 256),
     of_nat (v div 65536 mod 256), of_nat (v div 16777216 mod 256),
     of_nat (v div 4294967296 mod 256), of_nat (v div 1099511627776 mod 256),
     of_nat (v div 281474976710656 mod 256), of_nat (v div 72057594037927936 mod 256)]"

text \<open>
  \<^verbatim>\<open>d.find(sub, start, stop)\<close> for non-negative bounds: the lowest index \<open>pos \<ge> start\<close>
  at which \<open>sub\<close> occurs with its end at or before both \<open>stop\<close> and the end of \<open>d\<close>;
  \<open>None\<close> stands for the result \<open>-1\<close>.
\<close>

definition bytes_find :: "byte list \<Rightarrow> byte list \<Rightarrow> nat \<Rightarrow> nat \<Rightarrow> nat option" where
  "bytes_find d sub start stop =
     List.find (\<lambda>pos. py_slice d pos (pos + length sub) = sub)
       [start ..< Suc (min stop (length d)) - length sub]"

text \<open>The \<^verbatim>\<open>while idx < end\<close> loop of \<^verbatim>\<open>find_global_pointer_to_rva\<close>.\<close>

function find_pointer_loop :: "byte list \<Rightarrow> byte list \<Rightarrow> nat \<Rightarrow> nat \<Rightarrow> nat list" where
  "find_pointer_loop d target_bytes idx stop =
     (if idx < stop
      then (case bytes_find d target_bytes idx stop of
              None \<Rightarrow> []
            | Some pos \<Rightarrow> pos # find_pointer_loop d target_bytes (pos + 8) stop)
      else [])"
  by pat_completeness auto
termination
  by (relation "measure (\<lambda>(d, tb, idx, stop). stop - idx)")
     (auto simp: bytes_find_def find_Some_iff)

declare find_pointer_loop.simps [simp del]

text \<open>
  \<^verbatim>\<open>find_global_pointer_to_rva\<close>; \<^verbatim>\<open>struct.pack\<close> raises \<^verbatim>\<open>struct.error\<close> when the
  address is negative or does not fit 64 bits.
\<close>

definition find_global_pointer_to_rva :: "image \<Rightarrow> int \<Rightarrow> error + nat list" where
  "find_global_pointer_to_rva pe target_rva =
     (let target_va = int (base pe) + target_rva
      in if target_va < 0 \<or> 2 ^ 64 \<le> target_va then Inl StructError
         else Inr (find_pointer_loop (data pe) (pack_q (nat target_va))
                     (data_start pe) (data_start pe + data_size pe)))"

text \<open>
  A 16-byte \<^verbatim>\<open>.data\<close> region at file offset 0 that holds the little-endian pointer
  \<open>0x140001000\<close> at offset 3.
\<close>

definition unaligned_pointer_image :: image where
  "unaligned_pointer_image =
     \<lparr>data = [0xFF, 0xFF, 0xFF, 0x00, 0x10, 0x00, 0x40, 0x01, 0x00, 0x00, 0x00,
              0xFF, 0xFF, 0xFF, 0xFF, 0xFF],
      base = 0x140000000,
      sections = [\<lparr>name = dot_data, vsize = 16, rva = 0x3000, raw_size = 16, raw_offset = 0\<rparr>],
      text_start = 0, text_size = 0, text_rva = 0,
      rdata_start = 0, rdata_size = 0, rdata_rva = 0,
      data_start = 0, data_size = 16, data_rva = 0x3000\<rparr>"

section \<open>Signature generation\<close>

text \<open>
  The local \<^verbatim>\<open>data\<close> of \<^verbatim>\<open>make_smart_pattern\<close>: the window of at most \<open>n\<close> bytes at
  \<open>func_offset\<close>. When the window would pass the end of the buffer the length is
  replaced by \<^verbatim>\<open>len(self.data) - func_offset\<close>, so the slice ends at the end of the buffer
  (and is empty when \<open>func_offset\<close> lies beyond it).
\<close>

definition pattern_window :: "byte list \<Rightarrow> nat \<Rightarrow> nat \<Rightarrow> byte list" where
  "pattern_window d func_offset n =
     (if func_offset + n > length d then py_slice d func_offset (length d)
      else py_slice d func_offset (func_offset + n))"

text \<open>
  The three marking blocks at the head of the loop body, which never advance \<open>i\<close>:
  the displacement byte of a register spill (\<^verbatim>\<open>48/4C 89\<close>, \<open>mod = 1\<close>), the 8-bit
  immediate of \<^verbatim>\<open>sub rsp\<close> and the 32-bit immediate of \<^verbatim>\<open>sub rsp\<close>.
\<close>

definition spill_wildcards :: "byte list \<Rightarrow> nat \<Rightarrow> nat set \<Rightarrow> nat set" where
  "spill_wildcards w i wc =
     (if i + 4 < length w \<and> (w ! i = 0x48 \<or> w ! i = 0x4C) \<and> w ! (i + 1) = 0x89
      then (if modrm_mod (w ! (i + 2)) = 1
            then (if modrm_rm (w ! (i + 2)) = 4 then insert (i + 4) wc else insert (i + 3) wc)
            else wc)
      else wc)"

definition sub_imm8_wildcards :: "byte list \<Rightarrow> nat \<Rightarrow> nat set \<Rightarrow> nat set" where
  "sub_imm8_wildcards w i wc =
     (if i + 3 < length w \<and> w ! i = 0x48 \<and> w ! (i + 1) = 0x83 \<and> w ! (i + 2) = 0xEC
      then insert (i + 3) wc else wc)"

definition sub_imm32_wildcards :: "byte list \<Rightarrow> nat \<Rightarrow> nat set \<Rightarrow> nat set" where
  "sub_imm32_wildcards w i wc =
     (if i + 6 < length w \<and> w ! i = 0x48 \<and> w ! (i + 1) = 0x81 \<and> w ! (i + 2) = 0xEC
      then insert (i + 6) (insert (i + 5) (insert (i + 4) (insert (i + 3) wc))) else wc)"

text \<open>
  The wildcard set after the three blocks, in source order.
\<close>

definition stack_wildcards :: "byte list \<Rightarrow> nat \<Rightarrow> nat set \<Rightarrow> nat set" where
  "stack_wildcards w i wc = sub_imm32_wildcards w i (sub_imm8_wildcards w i (spill_wildcards w i wc))"

text \<open>
  The ModRM byte at \<open>i + 2\<close> selects \<open>mod = 0\<close>, \<open>rm = 5\<close>.
\<close>

definition rip_operand_at :: "byte list \<Rightarrow> nat \<Rightarrow> bool" where
  "rip_operand_at w i \<longleftrightarrow> modrm_mod (w ! (i + 2)) = 0 \<and> modrm_rm (w ! (i + 2)) = 5"

text \<open>
  The \<^verbatim>\<open>while i < len(data)\<close> loop: after the marking blocks, CALL and JMP with a 32-bit
  relative operand mark four bytes and advance by 5, the position-relative LEA and MOV
  forms mark four bytes and advance by 7, anything else advances by 1.
\<close>

function scan_wildcards :: "byte list \<Rightarrow> nat \<Rightarrow> nat set \<Rightarrow> nat set" where
  "scan_wildcards w i wc =
     (if i < length w
      then (if w ! i = 0xE8 \<and> i + 4 < length w
            then scan_wildcards w (i + 5)
                   (insert (i + 4) (insert (i + 3) (insert (i + 2) (insert (i + 1)
                      (stack_wildcards w i wc)))))
            else if w ! i = 0xE9 \<and> i + 4 < length w
            then scan_wildcards w (i + 5)
                   (insert (i + 4) (insert (i + 3) (insert (i + 2) (insert (i + 1)
                      (stack_wildcards w i wc)))))
            else if i + 6 < length w \<and> (w ! i = 0x48 \<or> w ! i = 0x4C) \<and> w ! (i + 1) = 0x8D \<and>
                    rip_operand_at w i
            then scan_wildcards w (i + 7)
                   (insert (i + 6) (insert (i + 5) (insert (i + 4) (insert (i + 3)
                      (stack_wildcards w i wc)))))
            else if i + 6 < length w \<and> (w ! i = 0x48 \<or> w ! i = 0x4C) \<and>
                    (w ! (i + 1) = 0x8B \<or> w ! (i + 1) = 0x89) \<and> rip_operand_at w i
            then scan_wildcards w (i + 7)
                   (insert (i + 6) (insert (i + 5) (insert (i + 4) (insert (i + 3)
                      (stack_wildcards w i wc)))))
            else scan_wildcards w (i + 1) (stack_wildcards w i wc))
      else wc)"
  by pat_completeness auto
termination
  by (relation "measure (\<lambda>(w, i, wc). length w - i)") auto

declare scan_wildcards.simps [simp del]

text \<open>
  The token \<^verbatim>\<open>f'{b:02X}'\<close>: two uppercase hexadecimal digits.
\<close>

definition hex_digit :: "nat \<Rightarrow> char" where
  "hex_digit n = ''0123456789ABCDEF'' ! n"

definition hex2 :: "byte \<Rightarrow> string" where
  "hex2 b = [hex_digit (unat b div 16), hex_digit (unat b mod 16)]"

text \<open>
  The list \<^verbatim>\<open>parts\<close>: one token for each index of the window, in order.
\<close>

definition pattern_parts :: "byte list \<Rightarrow> nat set \<Rightarrow> string list" where
  "pattern_parts w wc = map (\<lambda>j. if j \<in> wc then ''?'' else hex2 (w ! j)) [0 ..< length w]"

text \<open>
  \<^verbatim>\<open>' '.join(parts)\<close>.
\<close>

fun join_space :: "string list \<Rightarrow> string" where
  "join_space [] = []"
| "join_space [t] = t"
| "join_space (t # u # ts) = t @ '' '' @ join_space (u # ts)"

text \<open>
  \<^verbatim>\<open>make_smart_pattern\<close>: the tokens it builds, and the string it returns.
\<close>

definition pattern_tokens :: "image \<Rightarrow> nat \<Rightarrow> nat \<Rightarrow> string list" where
  "pattern_tokens pe func_offset n =
     (let w = pattern_window (data pe) func_offset n
      in pattern_parts w (scan_wildcards w 0 {}))"

definition make_smart_pattern :: "image \<Rightarrow> nat \<Rightarrow> nat \<Rightarrow> string" where
  "make_smart_pattern pe func_offset n = join_space (pattern_tokens pe func_offset n)"

text \<open>
  An 8-byte buffer: a prefixed LEA with a position-relative operand
  (\<^verbatim>\<open>48 8D 05\<close> and four displacement bytes) followed by RET.
\<close>

definition lea_window_image :: image where
  "lea_window_image = (init_image [0x48, 0x8D, 0x05, 0x10, 0x20, 0x30, 0x40, 0xC3])"

text \<open>
  An 11-byte buffer holding the same eight bytes at offset 1, after a trap byte and
  before two NOPs.
\<close>

definition lea_shifted_image :: image where
  "lea_shifted_image = (init_image [0xCC, 0x48, 0x8D, 0x05, 0x10, 0x20, 0x30, 0x40, 0xC3, 0x90, 0x90])"

text \<open>
  For reading a pattern back: \<^verbatim>\<open>s.split(' ')\<close>, the value of a hexadecimal digit and
  of a two-digit token.
\<close>

fun split_space :: "string \<Rightarrow> string list" where
  "split_space [] = [[]]"
| "split_space (c # cs) =
     (if c = CHR '' '' then [] # split_space cs
      else (case split_space cs of [] \<Rightarrow> [[c]] | t # ts \<Rightarrow> (c # t) # ts))"

definition hex_value :: "char \<Rightarrow> nat" where
  "hex_value c = length (takeWhile (\<lambda>x. x \<noteq> c) ''0123456789ABCDEF'')"

definition unhex2 :: "string \<Rightarrow> byte" where
  "unhex2 t = of_nat (16 * hex_value (t ! 0) + hex_value (t ! 1))"

section \<open>Operand offset extraction\<close>




























section \<open>Vtable scanning\<close>















section \<open>Function boundary resolution\<close>















section \<open>Container parsing: which inputs are rejected\<close>

lemma parse_section_not_ValueError: "parse_section d off pe \<noteq> Inl ValueError"
  by (auto simp: parse_section_def unpack_from_def Let_def split: sum.splits if_splits)

lemma parse_sections_not_ValueError: "parse_sections d so js pe \<noteq> Inl ValueError"
  by (induction js arbitrary: pe) (auto simp: parse_section_not_ValueError split: sum.splits)

lemma parse_section_base: "parse_section d off pe = Inr pe' \<Longrightarrow> base pe' = base pe"
  by (auto simp: parse_section_def unpack_from_def Let_def split: sum.splits if_splits)

lemma parse_sections_base: "parse_sections d so js pe = Inr pe' \<Longrightarrow> base pe' = base pe"
  by (induction js arbitrary: pe) (auto dest: parse_section_base split: sum.splits)

text \<open>
  Claim C2, as the code has it. \<^verbatim>\<open>_parse_pe\<close> raises \<^verbatim>\<open>ValueError\<close> in exactly two cases:
  the buffer does not start with \<^verbatim>\<open>MZ\<close>, or the four bytes at the header offset are not
  \<^verbatim>\<open>PE\0\0\<close> (an offset at or past the end of the buffer gives an empty slice, so it is
  covered). The optional-header magic is never a reason to fail: a parse that succeeds on
  a magic other than \<open>0x20B\<close> keeps the default base \<open>0x140000000\<close>.
\<close>

theorem parse_pe_format_errors:
  "(parse_pe d = Inl ValueError \<longleftrightarrow>
      py_slice d 0 2 \<noteq> mz_signature \<or>
      (0x40 \<le> length d \<and>
       py_slice d (le_nat (py_slice d 0x3C 0x40)) (le_nat (py_slice d 0x3C 0x40) + 4) \<noteq> pe_signature)) \<and>
   (\<forall>pe. parse_pe d = Inr pe \<and> header_magic d \<noteq> 0x20b \<longrightarrow> base pe = 0x140000000)"
proof (intro conjI allI impI)
  show "parse_pe d = Inl ValueError \<longleftrightarrow>
      py_slice d 0 2 \<noteq> mz_signature \<or>
      (0x40 \<le> length d \<and>
       py_slice d (le_nat (py_slice d 0x3C 0x40)) (le_nat (py_slice d 0x3C 0x40) + 4) \<noteq> pe_signature)"
    by (auto simp: parse_pe_def unpack_from_def Let_def parse_sections_not_ValueError
          split: sum.splits if_splits)
next
  fix pe
  assume a: "parse_pe d = Inr pe \<and> header_magic d \<noteq> 0x20b"
  then show "base pe = 0x140000000"
    by (auto simp: parse_pe_def unpack_from_def Let_def header_magic_def init_image_def
          add.commute add.left_commute
          dest!: parse_sections_base split: sum.splits if_splits)
qed

text \<open>
  The claim as stated fails on \<open>header32\<close>: its magic is the 32-bit one and the parse
  succeeds, returning the initial image unchanged.
\<close>

theorem parse_pe_32bit_counterexample:
  "header_magic header32 = 0x10b \<and> parse_pe header32 = Inr (init_image header32)"
  by (simp add: header32_def header_magic_def parse_pe_def unpack_from_def py_slice_def
        mz_signature_def pe_signature_def)

theorem parse_pe_format_errors_witness:
  "parse_pe header32 = Inr (init_image header32) \<and> header_magic header32 \<noteq> 0x20b \<and>
   parse_pe header32 \<noteq> Inl ValueError \<and> base (init_image header32) = 0x140000000"
proof -
  have p: "parse_pe header32 = Inr (init_image header32)"
    by (simp add: header32_def parse_pe_def unpack_from_def py_slice_def
          mz_signature_def pe_signature_def)
  have m: "header_magic header32 \<noteq> 0x20b"
    by (simp add: header32_def header_magic_def py_slice_def)
  from parse_pe_format_errors [of header32] p m
  have "base (init_image header32) = 0x140000000" by blast
  with p m show ?thesis by simp
qed

section \<open>Address translation: the round trip\<close>

lemma offset_to_rva_in_Some:
  "offset_to_rva_in ss off = Some r \<Longrightarrow>
   \<exists>t\<in>set ss. in_file_range t off \<and> r = off - int (raw_offset t) + int (rva t)"
  by (induction ss) (auto simp: in_file_range_def split: if_splits)

lemma rva_to_offset_in_Some:
  "rva_to_offset_in ss r = Some off \<Longrightarrow>
   \<exists>t\<in>set ss. in_rva_range t r \<and> off = r - int (rva t) + int (raw_offset t)"
  by (induction ss) (auto simp: in_rva_range_def split: if_splits)

lemma file_apart_no_common:
  "file_apart s t \<Longrightarrow> in_file_range t off \<Longrightarrow> \<not> in_file_range s off"
  by (auto simp: file_apart_def in_file_range_def)

lemma rva_apart_no_common:
  "rva_apart s t \<Longrightarrow> in_rva_range t r \<Longrightarrow> \<not> in_rva_range s r"
  by (auto simp: rva_apart_def in_rva_range_def)

lemma rva_round_trip_in:
  "file_ranges_disjoint ss \<Longrightarrow> \<exists>s\<in>set ss. in_rva_range s r \<Longrightarrow>
   \<exists>off. rva_to_offset_in ss r = Some off \<and> offset_to_rva_in ss off = Some r"
proof (induction ss)
  case Nil
  then show ?case by simp
next
  case (Cons s ss)
  show ?case
  proof (cases "in_rva_range s r")
    case True
    then show ?thesis by (simp add: in_rva_range_def)
  next
    case False
    with Cons.prems have "\<exists>t\<in>set ss. in_rva_range t r" by auto
    with Cons.IH Cons.prems obtain off where
      o1: "rva_to_offset_in ss r = Some off" and o2: "offset_to_rva_in ss off = Some r"
      by auto
    from o2 obtain t where t: "t \<in> set ss" "in_file_range t off"
      using offset_to_rva_in_Some by blast
    from Cons.prems(1) t(1) have "file_apart s t" by (simp add: list_all_iff)
    with t(2) have "\<not> in_file_range s off" using file_apart_no_common by blast
    with False o1 o2 show ?thesis by (auto simp: in_rva_range_def in_file_range_def)
  qed
qed

lemma offset_round_trip_in:
  "rva_ranges_disjoint ss \<Longrightarrow> \<exists>s\<in>set ss. in_file_range s off \<Longrightarrow>
   \<exists>r. offset_to_rva_in ss off = Some r \<and> rva_to_offset_in ss r = Some off"
proof (induction ss)
  case Nil
  then show ?case by simp
next
  case (Cons s ss)
  show ?case
  proof (cases "in_file_range s off")
    case True
    then show ?thesis by (simp add: in_file_range_def)
  next
    case False
    with Cons.prems have "\<exists>t\<in>set ss. in_file_range t off" by auto
    with Cons.IH Cons.prems obtain r where
      o1: "offset_to_rva_in ss off = Some r" and o2: "rva_to_offset_in ss r = Some off"
      by auto
    from o2 obtain t where t: "t \<in> set ss" "in_rva_range t r"
      using rva_to_offset_in_Some by blast
    from Cons.prems(1) t(1) have "rva_apart s t" by (simp add: list_all_iff)
    with t(2) have "\<not> in_rva_range s r" using rva_apart_no_common by blast
    with False o1 o2 show ?thesis by (auto simp: in_rva_range_def in_file_range_def)
  qed
qed

text \<open>
  Claim C3, amended. When no two sections share a file offset, an RVA inside some
  section's file-backed range maps to a file offset that maps back to it; when no two
  sections share an RVA, a file offset inside some section's file range maps to an RVA
  that maps back to it. The lookups answer from the first section that matches, so the
  round trip needs the section that matched on the way out to match first on the way back.
\<close>

theorem address_round_trip:
  "(file_ranges_disjoint (sections pe) \<and> (\<exists>s\<in>set (sections pe). in_rva_range s r) \<longrightarrow>
      (\<exists>off. rva_to_offset pe r = Some off \<and> offset_to_rva pe off = Some r)) \<and>
   (rva_ranges_disjoint (sections pe) \<and> (\<exists>s\<in>set (sections pe). in_file_range s off) \<longrightarrow>
      (\<exists>r. offset_to_rva pe off = Some r \<and> rva_to_offset pe r = Some off))"
  unfolding rva_to_offset_def offset_to_rva_def
  using rva_round_trip_in [of "sections pe" r] offset_round_trip_in [of "sections pe" off]
  by blast

text \<open>
  The claim as stated fails on the image parsed from \<open>header64_overlap\<close>: RVA \<open>0x2000\<close>
  lies in the second section, maps to file offset \<open>0x400\<close>, and that offset maps back
  through the first section to \<open>0x1000\<close>.
\<close>

theorem address_round_trip_counterexample:
  "parse_pe header64_overlap = Inr overlap_image \<and>
   in_rva_range (sections overlap_image ! 1) 0x2000 \<and>
   rva_to_offset overlap_image 0x2000 = Some 0x400 \<and>
   offset_to_rva overlap_image 0x400 = Some 0x1000 \<and>
   offset_to_rva overlap_image 0x400 \<noteq> Some 0x2000"
proof -
  have "parse_pe header64_overlap = Inr overlap_image"
    by (simp add: header64_overlap_def overlap_image_def parse_pe_def unpack_from_def py_slice_def
          mz_signature_def pe_signature_def parse_section_def Let_def upt_rec
          rstrip_nul_def decode_ascii_ignore_def dot_text_def dot_rdata_def dot_data_def
          init_image_def)
  moreover have "in_rva_range (sections overlap_image ! 1) 0x2000 \<and>
     rva_to_offset overlap_image 0x2000 = Some 0x400 \<and>
     offset_to_rva overlap_image 0x400 = Some 0x1000 \<and>
     offset_to_rva overlap_image 0x400 \<noteq> Some 0x2000"
    by (simp add: overlap_image_def in_rva_range_def rva_to_offset_def offset_to_rva_def)
  ultimately show ?thesis by simp
qed

theorem address_round_trip_witness:
  "file_ranges_disjoint (sections apart_image) \<and> rva_ranges_disjoint (sections apart_image) \<and>
   in_rva_range (sections apart_image ! 1) 0x2010 \<and>
   in_file_range (sections apart_image ! 1) 0x610 \<and>
   rva_to_offset apart_image 0x2010 = Some 0x610 \<and>
   offset_to_rva apart_image 0x610 = Some 0x2010"
  using address_round_trip [of apart_image "0x2010" "0x610"]
  by (simp add: apart_image_def in_rva_range_def in_file_range_def
        rva_to_offset_def offset_to_rva_def file_apart_def rva_apart_def)

section \<open>Reference scanning\<close>

lemma upt16: "[0 ..< 16] = [0, 1, 2, 3, 4, 5, 6, 7, 8, 9, 10, 11, 12, 13, 14, 15 :: nat]"
  by (simp add: upt_rec)

lemma xrefs_at_cases:
  "xrefs_at pe td te va i = [] \<or> xrefs_at pe td te va i = [text_start pe + i]"
  by (auto simp: xrefs_at_def Let_def)

text \<open>
  Inside the scanned range the loop is sound, and it is complete for every index that
  has at least thirteen further bytes of the region after it.
\<close>

lemma xrefs_at_sound:
  "int i < te \<Longrightarrow> te = int (length td) - 7 \<Longrightarrow> x \<in> set (xrefs_at pe td te va i) \<Longrightarrow>
   x = text_start pe + i \<and> rip_encoding_at pe td va i"
  by (auto simp: xrefs_at_def Let_def rip_encoding_at_def split: if_splits)

lemma xrefs_at_complete:
  "i + 13 < length td \<Longrightarrow> te = int (length td) - 7 \<Longrightarrow> rip_encoding_at pe td va i \<Longrightarrow>
   xrefs_at pe td te va i = [text_start pe + i]"
  by (auto simp: xrefs_at_def Let_def rip_encoding_at_def)

lemma concat_upt_sorted:
  assumes "\<And>i. i < n \<Longrightarrow> f i = [] \<or> f i = [c + i]"
  shows "sorted_wrt (<) (concat (map f [0 ..< n])) \<and>
         (\<forall>x \<in> set (concat (map f [0 ..< n])). c \<le> x \<and> x < c + n)"
  using assms
proof (induction n)
  case 0
  then show ?case by simp
next
  case (Suc n)
  then have IH: "sorted_wrt (<) (concat (map f [0 ..< n])) \<and>
         (\<forall>x \<in> set (concat (map f [0 ..< n])). c \<le> x \<and> x < c + n)"
    by simp
  from Suc.prems have "f n = [] \<or> f n = [c + n]" by simp
  with IH show ?case
    by (fastforce simp: sorted_wrt_append less_Suc_eq)
qed

text \<open>
  Claim C1 on the code. In \<open>tail_lea_image\<close> a recognised encoding whose target is the
  queried address lies wholly inside the code region at index 9, and the scan returns no
  reference: the loop stops seven bytes before the end of the region and each recogniser
  asks again for six more bytes below that bound, so an instruction in the last thirteen
  bytes is never reported. The same bytes followed by seven more are reported (at 9, and
  at 10 where the unprefixed LEA form matches inside the prefixed one).
\<close>

theorem find_string_xrefs_misses_tail:
  "offset_to_rva tail_lea_image 16 = Some 0x2000 \<and>
   rip_encoding_at tail_lea_image
      (py_slice (data tail_lea_image) (text_start tail_lea_image)
         (text_start tail_lea_image + text_size tail_lea_image))
      (int (base tail_lea_image) + 0x2000) 9 \<and>
   find_string_xrefs tail_lea_image 16 = [] \<and>
   find_string_xrefs padded_lea_image 23 = [9, 10]"
proof -
  have "offset_to_rva tail_lea_image 16 = Some 0x2000"
    by (simp add: tail_lea_image_def offset_to_rva_def)
  moreover have "rip_encoding_at tail_lea_image
      (py_slice (data tail_lea_image) (text_start tail_lea_image)
         (text_start tail_lea_image + text_size tail_lea_image))
      (int (base tail_lea_image) + 0x2000) 9"
    by (simp add: tail_lea_image_def py_slice_def rip_encoding_at_def
          rip_hit_def rip_target_def i32_at_def modrm_mod_def modrm_rm_def)
  moreover have "find_string_xrefs tail_lea_image 16 = []"
    by (simp add: find_string_xrefs_def tail_lea_image_def offset_to_rva_def py_slice_def Let_def
          upt_rec xrefs_at_def rip_hit_def rip_target_def i32_at_def modrm_mod_def modrm_rm_def)
  moreover have "find_string_xrefs padded_lea_image 23 = [9, 10]"
    by (simp add: find_string_xrefs_def padded_lea_image_def offset_to_rva_def py_slice_def Let_def
          upt16 xrefs_at_def rip_hit_def rip_target_def i32_at_def modrm_mod_def modrm_rm_def)
  ultimately show ?thesis by simp
qed

text \<open>
  Claim C10. For every image and every string offset the list returned by
  \<^verbatim>\<open>find_string_xrefs\<close> is strictly increasing, each of its values lies in the file range
  \<open>[text_start, text_start + text_size)\<close> of the code section, and it is empty when the
  code section is empty or absent (\<open>text_size = 0\<close>). The function has no failing branch.
\<close>

theorem find_string_xrefs_increasing:
  "sorted_wrt (<) (find_string_xrefs pe string_offset) \<and>
   (\<forall>x \<in> set (find_string_xrefs pe string_offset).
      text_start pe \<le> x \<and> x < text_start pe + text_size pe) \<and>
   (text_size pe = 0 \<longrightarrow> find_string_xrefs pe string_offset = [])"
proof (cases "offset_to_rva pe string_offset")
  case None
  then show ?thesis by (simp add: find_string_xrefs_def)
next
  case (Some string_rva)
  define td where "td = py_slice (data pe) (text_start pe) (text_start pe + text_size pe)"
  define te where "te = int (length td) - 7"
  define va where "va = int (base pe) + string_rva"
  have eq: "find_string_xrefs pe string_offset =
      concat (map (xrefs_at pe td te va) [0 ..< nat te])"
    using Some by (simp add: find_string_xrefs_def Let_def td_def te_def va_def)
  have len: "length td \<le> text_size pe"
    by (simp add: td_def py_slice_def)
  have s: "sorted_wrt (<) (concat (map (xrefs_at pe td te va) [0 ..< nat te])) \<and>
      (\<forall>x \<in> set (concat (map (xrefs_at pe td te va) [0 ..< nat te])).
          text_start pe \<le> x \<and> x < text_start pe + nat te)"
    by (rule concat_upt_sorted) (rule xrefs_at_cases)
  have b: "nat te \<le> text_size pe" using len by (simp add: te_def)
  have z: "text_size pe = 0 \<Longrightarrow> nat te = 0" using b by simp
  show ?thesis
    using s b z unfolding eq by fastforce
qed

theorem find_string_xrefs_increasing_witness:
  "find_string_xrefs padded_lea_image 23 = [9, 10] \<and>
   sorted_wrt (<) (find_string_xrefs padded_lea_image 23) \<and>
   text_start padded_lea_image \<le> 9 \<and>
   10 < text_start padded_lea_image + text_size padded_lea_image \<and>
   text_size (init_image []) = 0 \<and> find_string_xrefs (init_image []) 0 = []"
proof -
  have e: "find_string_xrefs padded_lea_image 23 = [9, 10]"
    by (simp add: find_string_xrefs_def padded_lea_image_def offset_to_rva_def py_slice_def Let_def
          upt16 xrefs_at_def rip_hit_def rip_target_def i32_at_def modrm_mod_def modrm_rm_def)
  have z: "text_size (init_image []) = 0" by (simp add: init_image_def)
  from find_string_xrefs_increasing [of padded_lea_image 23]
       find_string_xrefs_increasing [of "init_image []" 0] e z
  show ?thesis by simp
qed

section \<open>Pointer search in the data section: where the matches lie\<close>

lemma bytes_find_Some:
  "bytes_find d sub start stop = Some pos \<Longrightarrow>
   start \<le> pos \<and> pos + length sub \<le> stop \<and> pos + length sub \<le> length d \<and>
   py_slice d pos (pos + length sub) = sub"
  by (auto simp: bytes_find_def find_Some_iff)

lemma find_pointer_loop_props:
  "length tb = 8 \<Longrightarrow>
   (\<forall>p \<in> set (find_pointer_loop d tb idx stop).
      idx \<le> p \<and> p + 8 \<le> stop \<and> p + 8 \<le> length d \<and> py_slice d p (p + 8) = tb) \<and>
   sorted_wrt (\<lambda>a b. a + 8 \<le> b) (find_pointer_loop d tb idx stop)"
proof (induction d tb idx stop rule: find_pointer_loop.induct)
  case (1 d tb idx stop)
  show ?case
  proof (cases "idx < stop")
    case False
    then show ?thesis by (simp add: find_pointer_loop.simps [of d tb idx stop])
  next
    case True
    show ?thesis
    proof (cases "bytes_find d tb idx stop")
      case None
      with True show ?thesis by (simp add: find_pointer_loop.simps [of d tb idx stop])
    next
      case (Some pos)
      from bytes_find_Some [OF Some] "1.prems"
      have f: "idx \<le> pos" "pos + 8 \<le> stop" "pos + 8 \<le> length d" "py_slice d pos (pos + 8) = tb"
        by auto
      note IH = "1.IH" [OF True Some "1.prems"]
      have eq: "find_pointer_loop d tb idx stop = pos # find_pointer_loop d tb (pos + 8) stop"
        using True Some by (simp add: find_pointer_loop.simps [of d tb idx stop])
      show ?thesis
        unfolding eq using f IH by fastforce
    qed
  qed
qed

lemma length_pack_q: "length (pack_q v) = 8"
  by (simp add: pack_q_def)

lemma pack_q_example: "pack_q 0x140001000 = [0x00, 0x10, 0x00, 0x40, 0x01, 0x00, 0x00, 0x00]"
  by (simp add: pack_q_def)

text \<open>
  Claim C9, amended. Every position returned by \<^verbatim>\<open>find_global_pointer_to_rva\<close> lies
  inside the data region (its eight bytes end at or before the end of the region and of
  the buffer) and holds the eight little-endian bytes of the target virtual address;
  the positions increase and any two are at least eight bytes apart. Nothing ties a
  position to a multiple of eight: the search is \<^verbatim>\<open>bytes.find\<close>, byte by byte.
\<close>

theorem find_global_pointer_positions:
  "find_global_pointer_to_rva pe target_rva = Inr ps \<longrightarrow>
     (\<forall>p \<in> set ps.
        data_start pe \<le> p \<and> p + 8 \<le> data_start pe + data_size pe \<and> p + 8 \<le> length (data pe) \<and>
        py_slice (data pe) p (p + 8) = pack_q (nat (int (base pe) + target_rva))) \<and>
     sorted_wrt (\<lambda>a b. a + 8 \<le> b) ps"
  using find_pointer_loop_props [where tb = "pack_q (nat (int (base pe) + target_rva))"
      and d = "data pe" and idx = "data_start pe" and stop = "data_start pe + data_size pe"]
  by (auto simp: find_global_pointer_to_rva_def Let_def length_pack_q split: if_splits)

text \<open>
  The claim as stated fails on \<open>unaligned_pointer_image\<close>: the only position returned is
  3, three bytes into a region that starts at offset 0.
\<close>

theorem find_global_pointer_unaligned_counterexample:
  "find_global_pointer_to_rva unaligned_pointer_image 0x1000 = Inr [3] \<and>
   data_start unaligned_pointer_image = 0 \<and> (3 - 0) mod 8 \<noteq> (0 :: nat)"
  by (simp add: find_global_pointer_to_rva_def unaligned_pointer_image_def pack_q_example
        bytes_find_def py_slice_def upt_rec find_pointer_loop.simps)

theorem find_global_pointer_positions_witness:
  "find_global_pointer_to_rva unaligned_pointer_image 0x1000 = Inr [3] \<and>
   data_start unaligned_pointer_image \<le> 3 \<and>
   3 + 8 \<le> data_start unaligned_pointer_image + data_size unaligned_pointer_image \<and>
   py_slice (data unaligned_pointer_image) 3 (3 + 8) = pack_q 0x140001000"
proof -
  have e: "find_global_pointer_to_rva unaligned_pointer_image 0x1000 = Inr [3]"
    by (simp add: find_global_pointer_to_rva_def unaligned_pointer_image_def pack_q_example
          bytes_find_def py_slice_def upt_rec find_pointer_loop.simps)
  have b: "nat (int (base unaligned_pointer_image) + 0x1000) = 0x140001000"
    by (simp add: unaligned_pointer_image_def)
  from find_global_pointer_positions [of unaligned_pointer_image "0x1000" "[3]"] e b
  show ?thesis by simp
qed

section \<open>Signature generation: format and wildcard placement\<close>

lemma hex_value_digit: "n < 16 \<Longrightarrow> hex_value (hex_digit n) = n"
  by (auto simp: hex_value_def hex_digit_def less_Suc_eq numeral_eq_Suc)

lemma hex_digit_in: "n < 16 \<Longrightarrow> hex_digit n \<in> set ''0123456789ABCDEF''"
  unfolding hex_digit_def by (rule nth_mem) simp

lemma unhex2_hex2: "unhex2 (hex2 b) = b"
proof -
  have "unat b < 256" using unsigned_less [of b] by simp
  then have d: "unat b div 16 < 16" "unat b mod 16 < 16" by auto
  have "16 * (unat b div 16) + unat b mod 16 = unat b" by simp
  then show ?thesis
    by (simp add: unhex2_def hex2_def hex_value_digit d)
qed

lemma hex2_chars: "length (hex2 b) = 2 \<and> set (hex2 b) \<subseteq> set ''0123456789ABCDEF''"
proof -
  have "unat b < 256" using unsigned_less [of b] by simp
  then have d: "unat b div 16 < 16" "unat b mod 16 < 16" by auto
  show ?thesis using hex_digit_in [OF d(1)] hex_digit_in [OF d(2)] by (simp add: hex2_def)
qed

lemma split_space_nonempty: "split_space s \<noteq> []"
  by (induction s) (auto split: list.splits)

lemma split_space_token: "CHR '' '' \<notin> set t \<Longrightarrow> split_space t = [t]"
  by (induction t) (auto split: list.splits)

lemma split_space_append:
  "CHR '' '' \<notin> set t \<Longrightarrow> split_space (t @ CHR '' '' # s) = t # split_space s"
  by (induction t) (auto split: list.splits)

lemma split_join:
  "ts \<noteq> [] \<Longrightarrow> \<forall>t \<in> set ts. CHR '' '' \<notin> set t \<Longrightarrow> split_space (join_space ts) = ts"
  by (induction ts rule: join_space.induct) (auto simp: split_space_token split_space_append)


lemma stack_wildcards_above: "j \<le> i \<Longrightarrow> j \<in> stack_wildcards w i wc \<longleftrightarrow> j \<in> wc"
  by (auto simp: stack_wildcards_def sub_imm32_wildcards_def sub_imm8_wildcards_def
        spill_wildcards_def)

lemma scan_wildcards_below: "j < i \<Longrightarrow> j \<in> scan_wildcards w i wc \<longleftrightarrow> j \<in> wc"
proof (induction w i wc rule: scan_wildcards.induct)
  case (1 w i wc)
  have s: "j \<in> stack_wildcards w i wc \<longleftrightarrow> j \<in> wc"
    using "1.prems" by (simp add: stack_wildcards_above)
  show ?case
    apply (subst scan_wildcards.simps)
    using "1.IH" "1.prems" s
    by (auto split: if_splits)
qed

lemma tokens_length: "length (pattern_tokens pe fo n) = length (pattern_window (data pe) fo n)"
  by (simp add: pattern_tokens_def pattern_parts_def Let_def)

lemma tokens_nth:
  "j < length (pattern_window (data pe) fo n) \<Longrightarrow>
   pattern_tokens pe fo n ! j =
     (if j \<in> scan_wildcards (pattern_window (data pe) fo n) 0 {} then ''?''
      else hex2 (pattern_window (data pe) fo n ! j))"
  by (simp add: pattern_tokens_def pattern_parts_def Let_def)

lemma hex2_no_space: "CHR '' '' \<notin> set (hex2 b)"
  using hex2_chars [of b] by auto

lemma tokens_no_space: "t \<in> set (pattern_tokens pe fo n) \<Longrightarrow> CHR '' '' \<notin> set t"
  by (auto simp: pattern_tokens_def pattern_parts_def Let_def hex2_no_space split: if_splits)

lemma window_length: "length (pattern_window d fo n) = min n (length d - fo)"
  by (auto simp: pattern_window_def py_slice_def)

lemma window_nth:
  "j < min n (length d - fo) \<Longrightarrow> pattern_window d fo n ! j = d ! (fo + j)"
  by (auto simp: pattern_window_def py_slice_def)

lemma window_eq:
  "min n' (length d' - fo') = min n (length d - fo) \<Longrightarrow>
   \<forall>j < min n (length d - fo). d' ! (fo' + j) = d ! (fo + j) \<Longrightarrow>
   pattern_window d' fo' n' = pattern_window d fo n"
  by (rule nth_equalityI) (simp_all add: window_length window_nth)

lemma split_pattern:
  "0 < min n (length (data pe) - fo) \<Longrightarrow>
   split_space (make_smart_pattern pe fo n) = pattern_tokens pe fo n"
proof -
  assume "0 < min n (length (data pe) - fo)"
  then have "pattern_tokens pe fo n \<noteq> []"
    using tokens_length [of pe fo n] window_length [of "data pe" fo n] by auto
  then show ?thesis
    unfolding make_smart_pattern_def
    by (rule split_join) (auto dest: tokens_no_space)
qed

text \<open>
  Claim C5. Let \<open>L = min n (len - func_offset)\<close> be the length of the window. An empty
  window gives the empty string. Otherwise splitting the pattern at the spaces gives
  exactly \<open>L\<close> tokens, and the token at index \<open>j\<close> is the wildcard \<^verbatim>\<open>?\<close> or the two
  uppercase hexadecimal digits of the input byte at \<open>func_offset + j\<close>, which read back
  as that byte. The pattern is a function of the window bytes alone: two calls whose
  windows have the same length and hold the same bytes return the same string, whatever
  the images, offsets and requested lengths.
\<close>

theorem make_smart_pattern_format:
  "(min n (length (data pe) - fo) = 0 \<longrightarrow> make_smart_pattern pe fo n = []) \<and>
   (0 < min n (length (data pe) - fo) \<longrightarrow>
      length (split_space (make_smart_pattern pe fo n)) = min n (length (data pe) - fo)) \<and>
   (\<forall>j < min n (length (data pe) - fo).
      split_space (make_smart_pattern pe fo n) ! j = ''?'' \<or>
      (split_space (make_smart_pattern pe fo n) ! j = hex2 (data pe ! (fo + j)) \<and>
       length (split_space (make_smart_pattern pe fo n) ! j) = 2 \<and>
       set (split_space (make_smart_pattern pe fo n) ! j) \<subseteq> set ''0123456789ABCDEF'' \<and>
       unhex2 (split_space (make_smart_pattern pe fo n) ! j) = data pe ! (fo + j))) \<and>
   (min n' (length (data pe') - fo') = min n (length (data pe) - fo) \<and>
    (\<forall>j < min n (length (data pe) - fo). data pe' ! (fo' + j) = data pe ! (fo + j)) \<longrightarrow>
      make_smart_pattern pe' fo' n' = make_smart_pattern pe fo n)"
proof (intro conjI allI impI)
  assume "min n (length (data pe) - fo) = 0"
  then have "pattern_window (data pe) fo n = []"
    using window_length [of "data pe" fo n] by simp
  then show "make_smart_pattern pe fo n = []"
    by (simp add: make_smart_pattern_def pattern_tokens_def pattern_parts_def)
next
  assume p: "0 < min n (length (data pe) - fo)"
  show "length (split_space (make_smart_pattern pe fo n)) = min n (length (data pe) - fo)"
    unfolding split_pattern [OF p] by (simp add: tokens_length window_length)
next
  fix j assume j: "j < min n (length (data pe) - fo)"
  then have p: "0 < min n (length (data pe) - fo)" by arith
  have l: "j < length (pattern_window (data pe) fo n)" using j by (simp add: window_length)
  show "split_space (make_smart_pattern pe fo n) ! j = ''?'' \<or>
      (split_space (make_smart_pattern pe fo n) ! j = hex2 (data pe ! (fo + j)) \<and>
       length (split_space (make_smart_pattern pe fo n) ! j) = 2 \<and>
       set (split_space (make_smart_pattern pe fo n) ! j) \<subseteq> set ''0123456789ABCDEF'' \<and>
       unhex2 (split_space (make_smart_pattern pe fo n) ! j) = data pe ! (fo + j))"
    unfolding split_pattern [OF p]
    using tokens_nth [OF l] hex2_chars [of "data pe ! (fo + j)"]
    by (simp add: unhex2_hex2 window_nth [OF j])
next
  assume "min n' (length (data pe') - fo') = min n (length (data pe) - fo) \<and>
    (\<forall>j < min n (length (data pe) - fo). data pe' ! (fo' + j) = data pe ! (fo + j))"
  then have "pattern_window (data pe') fo' n' = pattern_window (data pe) fo n"
    by (intro window_eq) simp_all
  then show "make_smart_pattern pe' fo' n' = make_smart_pattern pe fo n"
    by (simp add: make_smart_pattern_def pattern_tokens_def)
qed

lemma hex2_8D: "hex2 0x8D = ''8D''"
  by (simp add: hex2_def hex_digit_def)

text \<open>
  Claim C6. When the window starts with a prefixed LEA (\<^verbatim>\<open>48\<close> or \<^verbatim>\<open>4C\<close>, then \<^verbatim>\<open>8D\<close>,
  then a ModRM byte with \<open>mod = 0\<close>, \<open>rm = 5\<close>) and holds its four displacement bytes,
  the tokens at indices 0 to 2 are the three literal bytes and the tokens at indices 3 to
  6 are wildcards.
\<close>

theorem lea_wildcard_coverage:
  "pattern_window (data pe) fo n = b0 # 0x8D # m # rest \<and> 4 \<le> length rest \<and>
   (b0 = 0x48 \<or> b0 = 0x4C) \<and> modrm_mod m = 0 \<and> modrm_rm m = 5 \<longrightarrow>
   take 7 (pattern_tokens pe fo n) = [hex2 b0, ''8D'', hex2 m, ''?'', ''?'', ''?'', ''?'']"
proof
  assume a: "pattern_window (data pe) fo n = b0 # 0x8D # m # rest \<and> 4 \<le> length rest \<and>
   (b0 = 0x48 \<or> b0 = 0x4C) \<and> modrm_mod m = 0 \<and> modrm_rm m = 5"
  define w where "w = pattern_window (data pe) fo n"
  have w: "w = b0 # 0x8D # m # rest" using a by (simp add: w_def)
  have len: "7 \<le> length w" using a w by simp
  have n0: "w ! 0 = b0" "w ! Suc 0 = 0x8D" "w ! Suc (Suc 0) = m" "w \<noteq> []" "6 < length w"
    using w len by simp_all
  have b0: "b0 \<noteq> 0xE8" "b0 \<noteq> 0xE9" using a by auto
  have st: "stack_wildcards w 0 {} = {}"
    by (simp add: n0 stack_wildcards_def sub_imm32_wildcards_def sub_imm8_wildcards_def
          spill_wildcards_def)
  have step: "scan_wildcards w 0 {} = scan_wildcards w 7 {6, 5, 4, 3}"
    apply (subst scan_wildcards.simps)
    using a len by (simp add: st n0 b0 rip_operand_at_def)
  have mem: "\<And>j. j < 7 \<Longrightarrow> j \<in> scan_wildcards w 0 {} \<longleftrightarrow> j \<in> {6, 5, 4, 3 :: nat}"
    unfolding step by (rule scan_wildcards_below)
  have t: "take 7 (pattern_tokens pe fo n) =
      map (\<lambda>j. if j \<in> scan_wildcards w 0 {} then ''?'' else hex2 (w ! j)) [0 ..< 7]"
    using len by (simp add: pattern_tokens_def pattern_parts_def Let_def w_def [symmetric]
          take_map)
  have u: "[0 ..< 7] = [0, 1, 2, 3, 4, 5, 6 :: nat]" by (simp add: upt_rec)
  have ms: "0 \<notin> scan_wildcards w 0 {}" "Suc 0 \<notin> scan_wildcards w 0 {}"
      "2 \<notin> scan_wildcards w 0 {}" "3 \<in> scan_wildcards w 0 {}" "4 \<in> scan_wildcards w 0 {}"
      "5 \<in> scan_wildcards w 0 {}" "6 \<in> scan_wildcards w 0 {}"
    by (simp_all add: mem)
  have n2: "w ! 2 = m" using w by simp
  show "take 7 (pattern_tokens pe fo n) = [hex2 b0, ''8D'', hex2 m, ''?'', ''?'', ''?'', ''?'']"
    unfolding t u by (simp add: ms n0 n2 hex2_8D)
qed

lemma lea_window_tokens:
  "pattern_tokens lea_window_image 0 32 = [''48'', ''8D'', ''05'', ''?'', ''?'', ''?'', ''?'', ''C3'']"
  by (simp add: pattern_tokens_def lea_window_image_def init_image_def pattern_window_def py_slice_def
        pattern_parts_def Let_def upt_rec scan_wildcards.simps stack_wildcards_def
        sub_imm32_wildcards_def sub_imm8_wildcards_def spill_wildcards_def rip_operand_at_def
        modrm_mod_def modrm_rm_def hex2_def hex_digit_def)

lemma lea_window_window:
  "pattern_window (data lea_window_image) 0 32 = [0x48, 0x8D, 0x05, 0x10, 0x20, 0x30, 0x40, 0xC3]"
  by (simp add: lea_window_image_def init_image_def pattern_window_def py_slice_def)

lemma lea_window_pattern: "make_smart_pattern lea_window_image 0 32 = ''48 8D 05 ? ? ? ? C3''"
  by (simp add: make_smart_pattern_def lea_window_tokens)

theorem make_smart_pattern_format_witness:
  "0 < min 32 (length (data lea_window_image) - 0) \<and>
   7 < min 32 (length (data lea_window_image) - 0) \<and>
   min 8 (length (data lea_shifted_image) - 1) = min 32 (length (data lea_window_image) - 0) \<and>
   data lea_shifted_image ! (1 + 7) = data lea_window_image ! (0 + 7) \<and>
   make_smart_pattern lea_window_image 0 32 = ''48 8D 05 ? ? ? ? C3'' \<and>
   length (split_space (make_smart_pattern lea_window_image 0 32)) = 8 \<and>
   split_space (make_smart_pattern lea_window_image 0 32) ! 7 = hex2 (data lea_window_image ! 7) \<and>
   unhex2 (split_space (make_smart_pattern lea_window_image 0 32) ! 7) = 0xC3 \<and>
   make_smart_pattern lea_shifted_image 1 8 = ''48 8D 05 ? ? ? ? C3''"
proof -
  note F = make_smart_pattern_format [of 32 lea_window_image 0 8 lea_shifted_image 1]
  have L: "min 32 (length (data lea_window_image) - 0) = 8"
    by (simp add: lea_window_image_def init_image_def)
  have L': "min 8 (length (data lea_shifted_image) - 1) = 8"
    by (simp add: lea_shifted_image_def init_image_def)
  have same: "\<forall>j < min 32 (length (data lea_window_image) - 0).
      data lea_shifted_image ! (1 + j) = data lea_window_image ! (0 + j)"
  proof (intro allI impI)
    fix j assume "j < min 32 (length (data lea_window_image) - 0)"
    then have "j < 8" unfolding L .
    then have "j = 0 \<or> j = 1 \<or> j = 2 \<or> j = 3 \<or> j = 4 \<or> j = 5 \<or> j = 6 \<or> j = 7" by auto
    then show "data lea_shifted_image ! (1 + j) = data lea_window_image ! (0 + j)"
      by (auto simp: lea_shifted_image_def lea_window_image_def init_image_def)
  qed
  have p: "make_smart_pattern lea_window_image 0 32 = ''48 8D 05 ? ? ? ? C3''"
    by (rule lea_window_pattern)
  have pos: "0 < min 32 (length (data lea_window_image) - 0)"
    and j7: "7 < min 32 (length (data lea_window_image) - 0)"
    unfolding L by simp_all
  from F pos have "length (split_space (make_smart_pattern lea_window_image 0 32)) =
      min 32 (length (data lea_window_image) - 0)"
    by blast
  then have n: "length (split_space (make_smart_pattern lea_window_image 0 32)) = 8"
    unfolding L .
  from F j7 have "split_space (make_smart_pattern lea_window_image 0 32) ! 7 = ''?'' \<or>
      (split_space (make_smart_pattern lea_window_image 0 32) ! 7 = hex2 (data lea_window_image ! (0 + 7)) \<and>
       unhex2 (split_space (make_smart_pattern lea_window_image 0 32) ! 7) = data lea_window_image ! (0 + 7))"
    by blast
  moreover have "split_space (make_smart_pattern lea_window_image 0 32) ! 7 \<noteq> ''?''"
    by (simp add: p)
  ultimately have t: "split_space (make_smart_pattern lea_window_image 0 32) ! 7 = hex2 (data lea_window_image ! 7)"
      "unhex2 (split_space (make_smart_pattern lea_window_image 0 32) ! 7) = data lea_window_image ! 7"
    by auto
  have c3: "data lea_window_image ! 7 = 0xC3" "data lea_shifted_image ! (1 + 7) = 0xC3"
    by (simp_all add: lea_window_image_def lea_shifted_image_def init_image_def)
  have LL: "min 8 (length (data lea_shifted_image) - 1) = min 32 (length (data lea_window_image) - 0)"
    unfolding L L' ..
  from F LL same have "make_smart_pattern lea_shifted_image 1 8 = make_smart_pattern lea_window_image 0 32"
    by blast
  then have s: "make_smart_pattern lea_shifted_image 1 8 = ''48 8D 05 ? ? ? ? C3''"
    by (simp add: p)
  have e: "data lea_shifted_image ! (1 + 7) = data lea_window_image ! (0 + 7)"
    using c3 by simp
  have u: "unhex2 (split_space (make_smart_pattern lea_window_image 0 32) ! 7) = 0xC3"
    using t(2) c3(1) by simp
  from pos j7 LL e p n t(1) u s show ?thesis by blast
qed

theorem lea_wildcard_coverage_witness:
  "pattern_window (data lea_window_image) 0 32 = 0x48 # 0x8D # 0x05 # [0x10, 0x20, 0x30, 0x40, 0xC3] \<and>
   4 \<le> length [0x10, 0x20, 0x30, 0x40, 0xC3 :: byte] \<and>
   modrm_mod 0x05 = 0 \<and> modrm_rm 0x05 = 5 \<and>
   take 7 (pattern_tokens lea_window_image 0 32) = [''48'', ''8D'', ''05'', ''?'', ''?'', ''?'', ''?'']"
proof -
  have m: "modrm_mod 0x05 = 0 \<and> modrm_rm 0x05 = 5"
    by (simp add: modrm_mod_def modrm_rm_def)
  have h: "hex2 0x48 = ''48''" "hex2 0x05 = ''05''" by (simp_all add: hex2_def hex_digit_def)
  from lea_wildcard_coverage [of lea_window_image 0 32 "0x48" "0x05" "[0x10, 0x20, 0x30, 0x40, 0xC3]"]
       lea_window_window m h
  show ?thesis by simp
qed

section \<open>Operand offset extraction: key ranges and collisions\<close>



















section \<open>Vtable scanning: the matches for a four-word table\<close>


















section \<open>Function boundary resolution: which strategy answers\<close>























end
